theory Spec2Isabelle
  imports Main
begin

section \<open>hntui: the view-state machine and the viewport window of \<open>main.go\<close>\<close>

text \<open>
  The development follows the second (current) version of \<open>main.go\<close>: the one with the
  package variable \<open>page\<close>, the comments view and the keys \<open>c\<close>, \<open>h\<close>, \<open>l\<close>
  (lines 269 to 662 of \<open>src/main.go\<close>; the line numbers below are those of that file).

  Go's \<open>int\<close> is a 64-bit two's complement integer on the platforms the program is built
  for. It is modelled by \<open>int\<close>. The package variable \<open>page\<close> is changed by \<open>page++\<close> and
  \<open>page--\<close> without any guard and multiplied by \<open>MAX\<close> in the fetch, so these operations
  carry their wrap-around (\<open>wrap64\<close>). All other arithmetic of the program is guarded by
  the surrounding conditions (\<open>m.cursor > 0\<close>, \<open>m.height > 0\<close>, \<open>maxVisible < len\<close>) and
  cannot leave the 64-bit range for a cursor inside its list, so it is written without a wrap.
  Go's \<open>/\<close> truncates towards zero (\<open>go_div\<close>), unlike \<open>div\<close> on \<open>int\<close>.
\<close>

subsection \<open>Integers\<close>

definition wrap64 :: "int \<Rightarrow> int" where
  "wrap64 x = (x + 2 ^ 63) mod 2 ^ 64 - 2 ^ 63"

definition go_div :: "int \<Rightarrow> int \<Rightarrow> int" where
  "go_div a b = (if (a < 0) = (b < 0) then \<bar>a\<bar> div \<bar>b\<bar> else - (\<bar>a\<bar> div \<bar>b\<bar>))"

text \<open>The constant \<open>MAX\<close> of the source; the name \<open>MAX\<close> is taken in HOL.\<close>

definition MAX' :: int where
  "MAX' = 20"

subsection \<open>Data\<close>

record Story =
  ID :: int
  By :: string
  Time :: int
  Kids :: "int list"
  URL :: string
  Score :: int
  Title :: string
  Descendants :: int

record Comment =
  CID :: int
  CBy :: string
  Text :: string
  CTime :: int

text \<open>The zero value of \<open>Story\<close>: what a slot of a fresh \<open>[MAX]Story\<close> holds.\<close>

definition zeroStory :: Story where
  "zeroStory = \<lparr>ID = 0, By = [], Time = 0, Kids = [], URL = [], Score = 0, Title = [],
     Descendants = 0\<rparr>"

text \<open>
  \<open>type model struct\<close>. The array \<open>[MAX]Story\<close> is a list that holds \<open>MAX'\<close> stories
  (\<open>wf_model\<close>); \<open>len(m.stories)\<close> is the constant \<open>MAX'\<close> of the array type. An \<open>error\<close>
  is its message, \<open>nil\<close> is \<open>None\<close>.
\<close>

record model =
  stories :: "Story list"
  comments :: "Comment list"
  commentHeights :: "int list"
  cursor :: int
  commentCursor :: int
  loading :: bool
  commentsView :: bool
  err :: "string option"
  width :: int
  height :: int

definition wf_model :: "model \<Rightarrow> bool" where
  "wf_model m = (int (length (stories m)) = MAX')"

definition initialModel :: model where
  "initialModel = \<lparr>stories = replicate (nat MAX') zeroStory, comments = [],
     commentHeights = [], cursor = 0, commentCursor = 0, loading = True,
     commentsView = False, err = None, width = 0, height = 0\<rparr>"

text \<open>
  The messages \<open>Update\<close> switches on. \<open>OtherMsg\<close> is a message of any other type: the type
  switch has no case for it.
\<close>

datatype msg =
    WindowSizeMsg int int
  | LoadedStoriesMsg "Story list"
  | LoadedCommentsMsg "Comment list"
  | ErrMsg "string option"
  | KeyMsg string
  | OtherMsg

text \<open>
  The commands \<open>Update\<close> returns: \<open>nil\<close>, \<open>tea.Quit\<close>, \<open>fetchTopStories\<close>, and the closure
  \<open>func() tea.Msg { return fetchComments(m.stories[m.cursor]) }\<close>, which captures the
  model it was built from.
\<close>

datatype cmd = NoCmd | Quit | FetchTopStoriesCmd | FetchCommentsCmd model

datatype panic = IndexOutOfRange | SliceBoundsOutOfRange

text \<open>\<open>m.stories[m.cursor]\<close>: indexing the array outside \<open>[0, MAX')\<close> panics.\<close>

definition story_at :: "model \<Rightarrow> panic + Story" where
  "story_at m = (if 0 \<le> cursor m \<and> cursor m < MAX' then Inr (stories m ! nat (cursor m))
     else Inl IndexOutOfRange)"

subsection \<open>The fetch commands\<close>

text \<open>
  \<open>fetchTopStories\<close> (lines 343 to 392) and \<open>fetchComments\<close> (lines 394 to 416).
  The network is a parameter. \<open>listing\<close> is the outcome of getting, reading and decoding
  \<open>topstories.json\<close> (\<open>Inl\<close> the error of whichever step failed); \<open>item i\<close> is the outcome
  of getting, reading and decoding item \<open>i\<close>, \<open>None\<close> when any step failed (the loop
  \<open>continue\<close>s and the slot keeps its zero value).

  \<open>fetchTopStories\<close> reads and writes the package variable \<open>page\<close>: it takes it and returns
  the message with the new value. The slice expression \<open>storiesID[start:end]\<close> panics
  unless \<open>0 \<le> start \<le> end \<le> cap\<close>; \<open>end \<le> len\<close> holds by the last clamp. The slice holds
  at most \<open>MAX\<close> ids, so \<open>stories[i] = s\<close> stays inside the array and the slots past the
  slice keep their zero value (\<open>fill\<close>; lemma \<open>fetch_fills_all_slots\<close> below).
\<close>

definition fill :: "(int \<Rightarrow> Story option) \<Rightarrow> int list \<Rightarrow> Story list" where
  "fill item ids = map (\<lambda>i. case item i of None \<Rightarrow> zeroStory | Some s \<Rightarrow> s) ids
     @ replicate (nat MAX' - length ids) zeroStory"

definition fetchTopStories ::
  "string + int list \<Rightarrow> (int \<Rightarrow> Story option) \<Rightarrow> int \<Rightarrow> panic + (msg \<times> int)" where
  "fetchTopStories listing item page =
     (case listing of
        Inl e \<Rightarrow> Inr (ErrMsg (Some e), page)
      | Inr storiesID \<Rightarrow>
          let n = int (length storiesID);
              start = max 0 (wrap64 (page * MAX'));
              endIdx = wrap64 (start + MAX');
              (page, start, endIdx) =
                (if start \<ge> n
                 then let page = go_div n MAX' - 1;
                          start = wrap64 (page * MAX');
                          endIdx = wrap64 (start + MAX')
                      in (page, start, endIdx)
                 else (page, start, endIdx));
              endIdx = (if endIdx > n then n else endIdx)
          in if 0 \<le> start \<and> start \<le> endIdx
             then Inr (LoadedStoriesMsg
                         (fill item (take (nat (endIdx - start)) (drop (nat start) storiesID))),
                       page)
             else Inl SliceBoundsOutOfRange)"

definition fetchComments :: "(int \<Rightarrow> Comment option) \<Rightarrow> Story \<Rightarrow> msg" where
  "fetchComments item story = LoadedCommentsMsg (List.map_filter item (Kids story))"

text \<open>Running a command: the message it delivers and the new value of \<open>page\<close>.\<close>

fun execCmd ::
  "string + int list \<Rightarrow> (int \<Rightarrow> Story option) \<Rightarrow> (int \<Rightarrow> Comment option) \<Rightarrow> cmd \<Rightarrow> int
     \<Rightarrow> panic + (msg option \<times> int)" where
  "execCmd listing item citem NoCmd page = Inr (None, page)"
| "execCmd listing item citem Quit page = Inr (None, page)"
| "execCmd listing item citem FetchTopStoriesCmd page =
     (case fetchTopStories listing item page of
        Inl p \<Rightarrow> Inl p
      | Inr (ms, page') \<Rightarrow> Inr (Some ms, page'))"
| "execCmd listing item citem (FetchCommentsCmd m) page =
     (case story_at m of
        Inl p \<Rightarrow> Inl p
      | Inr s \<Rightarrow> Inr (Some (fetchComments citem s), page))"

subsection \<open>Update\<close>

text \<open>
  \<open>Update\<close> (lines 441 to 512; \<open>keyPress\<close> is its \<open>tea.KeyMsg\<close> case, lines 468 to 510)
  takes the model and the package variable \<open>page\<close> and returns both, the command,
  and the URL handed to \<open>openURL\<close> if any. \<open>H text w\<close> stands for
  \<open>lipgloss.Height(wrap.String(html2text.HTML2Text(text), w))\<close>, the three library calls of
  \<open>commentHeight\<close>.
\<close>

type_synonym world = "model \<times> int"

type_synonym outcome = "panic + (world \<times> cmd \<times> string option)"

definition keyPress :: "string \<Rightarrow> world \<Rightarrow> outcome" where
  "keyPress k w = (case w of (m, page) \<Rightarrow>
     if k = ''ctrl+c'' \<or> k = ''q'' then Inr ((m, page), Quit, None)
     else if k = ''up'' \<or> k = ''k'' then
       (if commentsView m
        then (if commentCursor m > 0
              then Inr ((m\<lparr>commentCursor := commentCursor m - 1\<rparr>, page), NoCmd, None)
              else Inr ((m, page), NoCmd, None))
        else if cursor m > 0
        then Inr ((m\<lparr>cursor := cursor m - 1\<rparr>, page), NoCmd, None)
        else Inr ((m, page), NoCmd, None))
     else if k = ''down'' \<or> k = ''j'' then
       (if commentsView m
        then (if commentCursor m < int (length (comments m)) - 1
              then Inr ((m\<lparr>commentCursor := commentCursor m + 1\<rparr>, page), NoCmd, None)
              else Inr ((m, page), NoCmd, None))
        else if cursor m < MAX' - 1
        then Inr ((m\<lparr>cursor := cursor m + 1\<rparr>, page), NoCmd, None)
        else Inr ((m, page), NoCmd, None))
     else if k = ''r'' then Inr ((m\<lparr>loading := True\<rparr>, page), FetchTopStoriesCmd, None)
     else if k = ''c'' then
       (if \<not> commentsView m
        then (let m' = m\<lparr>commentsView := True, loading := True\<rparr>
              in Inr ((m', page), FetchCommentsCmd m', None))
        else Inr ((m\<lparr>commentsView := False\<rparr>, page), NoCmd, None))
     else if k = ''pgup'' \<or> k = ''l'' then
       Inr ((m\<lparr>loading := True\<rparr>, wrap64 (page + 1)), FetchTopStoriesCmd, None)
     else if k = ''pgdown'' \<or> k = ''h'' then
       Inr ((m\<lparr>loading := True\<rparr>, wrap64 (page - 1)), FetchTopStoriesCmd, None)
     else if k = ''enter'' then
       (case story_at m of
          Inl p \<Rightarrow> Inl p
        | Inr s \<Rightarrow> Inr ((m, page), NoCmd, Some (URL s)))
     else Inr ((m, page), NoCmd, None))"

fun Update :: "(string \<Rightarrow> int \<Rightarrow> int) \<Rightarrow> msg \<Rightarrow> world \<Rightarrow> outcome" where
  "Update H (WindowSizeMsg w h) (m, page) =
     Inr ((m\<lparr>width := w, height := h\<rparr>, page), NoCmd, None)"
| "Update H (LoadedStoriesMsg loadedStories) (m, page) =
     Inr ((m\<lparr>stories := loadedStories, loading := False\<rparr>, page), NoCmd, None)"
| "Update H (LoadedCommentsMsg loadedComments) (m, page) =
     Inr ((m\<lparr>comments := loadedComments, loading := False, commentCursor := 0,
              commentHeights := map (\<lambda>c. H (Text c) (width m)) loadedComments\<rparr>, page),
          NoCmd, None)"
| "Update H (ErrMsg e) (m, page) =
     Inr ((m\<lparr>err := e, loading := False\<rparr>, page), NoCmd, None)"
| "Update H (KeyMsg k) (m, page) = keyPress k (m, page)"
| "Update H OtherMsg (m, page) = Inr ((m, page), NoCmd, None)"

text \<open>
  A run of the program: the messages are handled one at a time, from the first; a panic
  ends the run, and so does \<open>tea.Quit\<close>.
\<close>

fun run :: "(string \<Rightarrow> int \<Rightarrow> int) \<Rightarrow> msg list \<Rightarrow> world \<Rightarrow> panic + world" where
  "run H [] w = Inr w"
| "run H (x # xs) w =
     (case Update H x w of
        Inl p \<Rightarrow> Inl p
      | Inr (w', c, u) \<Rightarrow> if c = Quit then Inr w' else run H xs w')"

subsection \<open>View\<close>

text \<open>
  \<open>View\<close> (lines 520 to 629). \<open>centred\<close> is the block that both of its branches run
  once \<open>maxVisible\<close> is known to be smaller than the list (lines 540 to 545 and 590 to
  595): centre on the cursor, then clamp to the end.
\<close>

definition centred :: "int \<Rightarrow> int \<Rightarrow> int \<Rightarrow> int \<times> int" where
  "centred len cur maxVisible =
     (let visibleStart = max (cur - go_div maxVisible 2) 0;
          visibleEnd = visibleStart + maxVisible
      in if visibleEnd > len then (max (len - maxVisible) 0, len)
         else (visibleStart, visibleEnd))"

text \<open>\<open>(visibleStart, visibleEnd)\<close> of the story branch (lines 584 to 597).\<close>

definition storyWindow :: "model \<Rightarrow> int \<times> int" where
  "storyWindow m =
     (if height m > 0
      then (let maxVisible = go_div (height m - 5) 3
            in if maxVisible < MAX' then centred MAX' (cursor m) maxVisible else (0, MAX'))
      else (0, MAX'))"

text \<open>\<open>(visibleStart, visibleEnd)\<close> of the comments branch (lines 534 to 547).\<close>

definition commentWindow :: "model \<Rightarrow> int \<times> int" where
  "commentWindow m =
     (let len = int (length (comments m))
      in if height m > 0
         then (let maxVisible = go_div (height m - 2) 3
               in if maxVisible > 0 \<and> maxVisible < len
                  then centred len (commentCursor m) maxVisible else (0, len))
         else (0, len))"

text \<open>
  What \<open>View\<close> draws, without the styling: the error screen, or the title with the
  \<open>Loading...\<close> line when \<open>m.loading\<close> and the rows of the window, each with whether it
  carries the cursor mark. The comments loop also stops at \<open>len(m.comments)\<close>.
\<close>

datatype frame =
    ErrorFrame string
  | CommentsFrame bool "(bool \<times> Comment) list"
  | StoriesFrame bool "(bool \<times> Story) list"

definition View :: "model \<Rightarrow> frame" where
  "View m =
     (case err m of
        Some e \<Rightarrow> ErrorFrame e
      | None \<Rightarrow>
          if commentsView m
          then (case commentWindow m of (visibleStart, visibleEnd) \<Rightarrow>
                  CommentsFrame (loading m)
                    (map (\<lambda>i. (commentCursor m = i, comments m ! nat i))
                       [visibleStart .. min visibleEnd (int (length (comments m))) - 1]))
          else (case storyWindow m of (visibleStart, visibleEnd) \<Rightarrow>
                  StoriesFrame (loading m)
                    (map (\<lambda>i. (cursor m = i, stories m ! nat i))
                       [visibleStart .. visibleEnd - 1])))"

subsection \<open>Sample inputs\<close>

text \<open>
  Concrete inputs for the closed theorems below: a height function, a network that serves
  every item, two stories (the first with one comment, the second with none) and the page
  that holds them.
\<close>

definition unitHeight :: "string \<Rightarrow> int \<Rightarrow> int" where
  "unitHeight text w = 1"

definition sampleItem :: "int \<Rightarrow> Story option" where
  "sampleItem i = Some (zeroStory\<lparr>ID := i\<rparr>)"

definition sampleComment :: "int \<Rightarrow> Comment option" where
  "sampleComment i = Some \<lparr>CID = i, CBy = ''pg'', Text = ''first'', CTime = 0\<rparr>"

definition storyA :: Story where
  "storyA = zeroStory\<lparr>ID := 1, Kids := [101]\<rparr>"

definition storyB :: Story where
  "storyB = zeroStory\<lparr>ID := 2\<rparr>"

definition samplePage :: "Story list" where
  "samplePage = storyA # storyB # replicate 18 zeroStory"

definition commentA :: Comment where
  "commentA = \<lparr>CID = 101, CBy = ''pg'', Text = ''first'', CTime = 0\<rparr>"

text \<open>A model in the comments view, showing the one comment of \<open>storyA\<close>.\<close>

definition threadModel :: model where
  "threadModel = initialModel\<lparr>stories := samplePage, comments := [commentA],
     commentHeights := [1], loading := False, commentsView := True\<rparr>"

subsection \<open>The cursor bounds\<close>

text \<open>
  The story cursor is an index of the array; the comment cursor is an index of the comment
  list, or 0 when the list is empty.
\<close>

definition cursors_ok :: "model \<Rightarrow> bool" where
  "cursors_ok m = (0 \<le> cursor m \<and> cursor m < MAX' \<and> 0 \<le> commentCursor m
     \<and> commentCursor m < max 1 (int (length (comments m))))"

section \<open>Arithmetic\<close>

lemma wrap64_id: "- (2 ^ 63) \<le> x \<Longrightarrow> x < 2 ^ 63 \<Longrightarrow> wrap64 x = x"
  unfolding wrap64_def by (simp add: mod_pos_pos_trivial)

lemma wrap64_range: "- (2 ^ 63) \<le> wrap64 x \<and> wrap64 x < 2 ^ 63"
  unfolding wrap64_def by simp

lemma wrap64_le: "- (2 ^ 63) \<le> x \<Longrightarrow> wrap64 x \<le> x"
  unfolding wrap64_def using zmod_le_nonneg_dividend [of "x + 2 ^ 63" "2 ^ 64"] by simp

lemma go_div_pos: "0 \<le> a \<Longrightarrow> 0 < b \<Longrightarrow> go_div a b = a div b"
  by (simp add: go_div_def)

section \<open>The visible window\<close>

text \<open>
  With at least one row to show and fewer rows than items, the centred window lies inside
  the list, holds the cursor and has exactly \<open>maxVisible\<close> rows.
\<close>

lemma centred_bounds:
  assumes "0 < mv" "mv < n" "0 \<le> c" "c < n"
  shows "fst (centred n c mv) \<le> c \<and> 0 \<le> fst (centred n c mv) \<and> c < snd (centred n c mv)
    \<and> snd (centred n c mv) \<le> n \<and> snd (centred n c mv) - fst (centred n c mv) = mv"
proof -
  have h: "go_div mv 2 = mv div 2"
    using assms by (simp add: go_div_pos)
  have "mv div 2 < mv" "0 \<le> mv div 2"
    using assms by auto
  then show ?thesis
    using assms unfolding centred_def h Let_def by (auto simp: max_def)
qed

text \<open>
  The comments branch guards the centring with \<open>maxVisible > 0\<close>: at every height its
  window lies inside the list and holds the cursor.
\<close>

lemma commentWindow_bounds:
  assumes "0 \<le> commentCursor m" "commentCursor m < int (length (comments m))"
  shows "0 \<le> fst (commentWindow m) \<and> fst (commentWindow m) \<le> commentCursor m
    \<and> commentCursor m < snd (commentWindow m)
    \<and> snd (commentWindow m) \<le> int (length (comments m))"
  using assms
    centred_bounds [of "go_div (height m - 2) 3" "int (length (comments m))" "commentCursor m"]
  unfolding commentWindow_def Let_def by auto

text \<open>
  The story branch has no such guard. Its window holds the cursor when the height is not
  positive (everything is shown) or at least 8 (\<open>maxVisible \<ge> 1\<close>).
\<close>

lemma storyWindow_bounds:
  assumes "0 \<le> cursor m" "cursor m < MAX'" "height m \<le> 0 \<or> 8 \<le> height m"
  shows "0 \<le> fst (storyWindow m) \<and> fst (storyWindow m) \<le> cursor m
    \<and> cursor m < snd (storyWindow m) \<and> snd (storyWindow m) \<le> MAX'"
proof (cases "8 \<le> height m")
  case True
  then have "go_div (height m - 5) 3 = (height m - 5) div 3"
    by (simp add: go_div_pos)
  moreover have "0 < (height m - 5) div 3"
    using True by simp
  ultimately show ?thesis
    using assms centred_bounds [of "go_div (height m - 5) 3" "MAX'" "cursor m"] True
    unfolding storyWindow_def Let_def by auto
next
  case False
  then show ?thesis
    using assms unfolding storyWindow_def by auto
qed

text \<open>At the heights 3 to 7 \<open>maxVisible\<close> is 0 and the story window is empty.\<close>

lemma storyWindow_empty:
  assumes "0 \<le> cursor m" "cursor m < MAX'" "3 \<le> height m" "height m \<le> 7"
  shows "storyWindow m = (cursor m, cursor m)"
proof -
  have "go_div (height m - 5) 3 = 0"
    using assms unfolding go_div_def by auto
  then show ?thesis
    using assms unfolding storyWindow_def centred_def Let_def
    by (auto simp: go_div_def MAX'_def)
qed

text \<open>
  C1. The claim: for a cursor inside the list and every terminal height, the visible
  window holds the cursor and is never empty. The story branch of \<open>View\<close> breaks it on a
  terminal of 5 rows: with the cursor on the first of the 20 stories the window is
  \<open>(0, 0)\<close> and \<open>View\<close> draws no story row at all; on a terminal of 1 row
  \<open>maxVisible\<close> is \<open>-1\<close> and the window is \<open>(0, -1)\<close>, its end before its start.
  The comments branch, which tests \<open>maxVisible > 0\<close> first, keeps the claim
  (\<open>commentWindow_bounds\<close>).
\<close>

theorem story_window_loses_cursor:
  "storyWindow (initialModel\<lparr>loading := False, height := 5\<rparr>) = (0, 0)
   \<and> View (initialModel\<lparr>loading := False, height := 5\<rparr>) = StoriesFrame False []
   \<and> storyWindow (initialModel\<lparr>loading := False, height := 1\<rparr>) = (0, - 1)"
  by (simp add: storyWindow_def View_def centred_def go_div_def initialModel_def MAX'_def)

text \<open>
  C2, as amended. With 20 stories and \<open>maxVisible = 9\<close> (a terminal of 32 rows), the
  window is \<open>(0, 9)\<close> for the cursor at 0, \<open>(11, 20)\<close> for the cursor at 19, and
  \<open>(6, 15)\<close> for the cursor at 10: the centre rule starts the window at
  \<open>10 - 9/2 = 10 - 4 = 6\<close>.
\<close>

theorem window_examples:
  "go_div (32 - 5) 3 = 9
   \<and> storyWindow (m\<lparr>height := 32, cursor := 0\<rparr>) = (0, 9)
   \<and> storyWindow (m\<lparr>height := 32, cursor := 19\<rparr>) = (11, 20)
   \<and> storyWindow (m\<lparr>height := 32, cursor := 10\<rparr>) = (6, 15)
   \<and> centred 20 0 9 = (0, 9) \<and> centred 20 19 9 = (11, 20) \<and> centred 20 10 9 = (6, 15)"
  by (simp add: storyWindow_def centred_def go_div_def MAX'_def)

text \<open>
  C2 as stated fails: for the cursor at 10 the window is not \<open>(5, 14)\<close>.
\<close>

theorem window_cursor_10_counterexample:
  "storyWindow (initialModel\<lparr>height := 32, cursor := 10\<rparr>) \<noteq> (5, 14)"
  by (simp add: storyWindow_def centred_def go_div_def initialModel_def MAX'_def)

section \<open>The state machine\<close>

subsection \<open>Cursor bounds along every run\<close>

lemma cursors_ok_initial: "cursors_ok initialModel"
  by (simp add: cursors_ok_def initialModel_def MAX'_def)

lemma keyPress_total:
  assumes "cursors_ok m"
  shows "\<exists>m' p' c u. keyPress k (m, p) = Inr ((m', p'), c, u) \<and> cursors_ok m'"
  using assms unfolding keyPress_def story_at_def Let_def
  by (simp add: cursors_ok_def)

lemma Update_total:
  assumes "cursors_ok m"
  shows "\<exists>m' p' c u. Update H x (m, p) = Inr ((m', p'), c, u) \<and> cursors_ok m'"
proof (cases x)
  case (KeyMsg k)
  then show ?thesis
    using keyPress_total [OF assms] by simp
qed (use assms in \<open>simp_all add: cursors_ok_def\<close>)

lemma run_total:
  assumes "cursors_ok m"
  shows "\<exists>m' p'. run H xs (m, p) = Inr (m', p') \<and> cursors_ok m'"
  using assms
proof (induction xs arbitrary: m p)
  case Nil
  then show ?case by simp
next
  case (Cons x xs)
  from Update_total [OF Cons.prems, of H x p]
  obtain m1 p1 c u
    where st: "Update H x (m, p) = Inr ((m1, p1), c, u)" and ok: "cursors_ok m1"
    by blast
  show ?case
  proof (cases "c = Quit")
    case True
    then show ?thesis
      using st ok by simp
  next
    case False
    then show ?thesis
      using st Cons.IH [OF ok, of p1] by simp
  qed
qed

text \<open>
  C3, as amended. Start from \<open>initialModel\<close> with \<open>page = 0\<close>. Whatever messages
  arrive, in whatever order, \<open>Update\<close> handles each of them without a panic (the
  commands it returns are not run here), and in the state reached the story
  cursor is in \<open>[0, 20)\<close> and the comment cursor is in \<open>[0, max 1 (len comments))\<close>:
  inside the comment list when there are comments, 0 when there are none. The messages
  include the completions that replace the comment list by one of another length.
\<close>

theorem cursors_stay_in_bounds:
  "\<exists>m p. run H msgs (initialModel, 0) = Inr (m, p)
     \<and> 0 \<le> cursor m \<and> cursor m < 20
     \<and> 0 \<le> commentCursor m \<and> commentCursor m < max 1 (int (length (comments m)))"
  using run_total [OF cursors_ok_initial, of H msgs 0]
  by (auto simp: cursors_ok_def MAX'_def)

text \<open>
  C3 as stated fails: after \<open>c\<close> on a story without comments and the completion with
  the empty list, the program is in the comments view, the list is empty and the comment
  cursor, 0, is not below its length.
\<close>

theorem empty_thread_counterexample:
  "run unitHeight [KeyMsg ''c'', LoadedCommentsMsg []] (initialModel, 0)
     = Inr (initialModel\<lparr>commentsView := True, loading := False\<rparr>, 0)
   \<and> \<not> commentCursor (initialModel\<lparr>commentsView := True, loading := False\<rparr>)
        < int (length (comments (initialModel\<lparr>commentsView := True, loading := False\<rparr>)))"
  by (simp add: keyPress_def initialModel_def Let_def)

subsection \<open>Completions\<close>

text \<open>
  C5, as amended. \<open>loadedCommentsMsg\<close> carries the comments and nothing else, and
  \<open>Update\<close> never discards it: whatever the mode and whichever story the cursor is on,
  it replaces the comment list, clears \<open>loading\<close>, resets the comment cursor to 0 and
  recomputes the heights; the mode, the stories, the story cursor, the error, the size
  and \<open>page\<close> stay as they were.
\<close>

theorem comments_completion_always_applied:
  "Update H (LoadedCommentsMsg cs) (m, p)
     = Inr ((m\<lparr>comments := cs, loading := False, commentCursor := 0,
               commentHeights := map (\<lambda>c. H (Text c) (width m)) cs\<rparr>, p), NoCmd, None)"
  by simp

text \<open>
  C5 as stated fails. The user opens the comments of \<open>storyA\<close> (the command is emitted),
  leaves, and moves the cursor to \<open>storyB\<close>; the command then delivers the comments of
  \<open>storyA\<close>, and \<open>Update\<close> changes the state although \<open>storyB\<close> is selected.
\<close>

theorem stale_comments_counterexample:
  "Update unitHeight (KeyMsg ''c'') (initialModel\<lparr>stories := samplePage, loading := False\<rparr>, 0)
     = Inr ((initialModel\<lparr>stories := samplePage, commentsView := True\<rparr>, 0),
            FetchCommentsCmd (initialModel\<lparr>stories := samplePage, commentsView := True\<rparr>),
            None)
   \<and> run unitHeight [LoadedStoriesMsg samplePage, KeyMsg ''c'', KeyMsg ''c'', KeyMsg ''j'']
       (initialModel, 0)
     = Inr (initialModel\<lparr>stories := samplePage, cursor := 1\<rparr>, 0)
   \<and> story_at (initialModel\<lparr>stories := samplePage, cursor := 1\<rparr>) = Inr storyB
   \<and> execCmd (Inr [1, 2]) sampleItem sampleComment
        (FetchCommentsCmd (initialModel\<lparr>stories := samplePage, commentsView := True\<rparr>)) 0
     = Inr (Some (LoadedCommentsMsg [commentA]), 0)
   \<and> Update unitHeight (LoadedCommentsMsg [commentA])
        (initialModel\<lparr>stories := samplePage, cursor := 1\<rparr>, 0)
     \<noteq> Inr ((initialModel\<lparr>stories := samplePage, cursor := 1\<rparr>, 0), NoCmd, None)"
  by (simp add: keyPress_def initialModel_def Let_def MAX'_def story_at_def samplePage_def
      fetchComments_def sampleComment_def commentA_def storyA_def storyB_def zeroStory_def
      List.map_filter_def)

text \<open>
  The stories completion replaces the slots and clears \<open>loading\<close>; it leaves \<open>m.err\<close>
  as it was. The failed fetch stores the error, clears \<open>loading\<close> and keeps the slots.
\<close>

lemma stories_completion:
  "Update H (LoadedStoriesMsg ss) (m, p)
     = Inr ((m\<lparr>stories := ss, loading := False\<rparr>, p), NoCmd, None)
   \<and> err (m\<lparr>stories := ss, loading := False\<rparr>) = err m
   \<and> cursor (m\<lparr>stories := ss, loading := False\<rparr>) = cursor m"
  by simp

lemma fetch_failure:
  "Update H (ErrMsg e) (m, p) = Inr ((m\<lparr>err := e, loading := False\<rparr>, p), NoCmd, None)
   \<and> stories (m\<lparr>err := e, loading := False\<rparr>) = stories m"
  by simp

text \<open>
  C6. The claim: a successful stories completion clears the stored error. The code does
  not: after a failed fetch, the retry key \<open>r\<close> and a successful completion, \<open>m.err\<close>
  still holds the error of the failed fetch, and \<open>View\<close> still draws the error screen
  that offers the retry.
\<close>

theorem stored_error_survives_success:
  "run unitHeight [ErrMsg (Some ''timeout''), KeyMsg ''r'', LoadedStoriesMsg samplePage]
       (initialModel, 0)
     = Inr (initialModel\<lparr>stories := samplePage, loading := False, err := Some ''timeout''\<rparr>, 0)
   \<and> View (initialModel\<lparr>stories := samplePage, loading := False, err := Some ''timeout''\<rparr>)
     = ErrorFrame ''timeout''"
  by (simp add: keyPress_def initialModel_def View_def)

subsection \<open>The comments toggle\<close>

text \<open>
  C7. In the stories view, \<open>c\<close> enters the comments view and emits the comments fetch;
  a second \<open>c\<close> right after it returns to the stories view. The state after both is the
  original one with \<open>loading\<close> set: the story cursor and \<open>page\<close> are those of the
  original state.
\<close>

theorem toggle_round_trip:
  assumes "\<not> commentsView m"
  shows "Update H (KeyMsg ''c'') (m, p)
           = Inr ((m\<lparr>commentsView := True, loading := True\<rparr>, p),
                  FetchCommentsCmd (m\<lparr>commentsView := True, loading := True\<rparr>), None)
       \<and> run H [KeyMsg ''c'', KeyMsg ''c''] (m, p) = Inr (m\<lparr>loading := True\<rparr>, p)
       \<and> cursor (m\<lparr>loading := True\<rparr>) = cursor m
       \<and> commentsView (m\<lparr>loading := True\<rparr>) = commentsView m"
  using assms by (simp add: keyPress_def Let_def)

text \<open>The round trip from the stories view with the cursor on story 7 of page 3.\<close>

theorem toggle_round_trip_witness:
  "\<not> commentsView (initialModel\<lparr>cursor := 7\<rparr>)
   \<and> run unitHeight [KeyMsg ''c'', KeyMsg ''c''] (initialModel\<lparr>cursor := 7\<rparr>, 3)
       = Inr (initialModel\<lparr>cursor := 7\<rparr>\<lparr>loading := True\<rparr>, 3)"
proof -
  have h: "\<not> commentsView (initialModel\<lparr>cursor := 7\<rparr>)"
    by (simp add: initialModel_def)
  from h toggle_round_trip [OF h, of unitHeight 3] show ?thesis
    by blast
qed

text \<open>
  C8, as amended. In the comments view, \<open>c\<close> returns to the stories view and emits no
  command; the comment list is left as it is (it is not cleared).
\<close>

theorem leaving_keeps_comments:
  assumes "commentsView m"
  shows "Update H (KeyMsg ''c'') (m, p) = Inr ((m\<lparr>commentsView := False\<rparr>, p), NoCmd, None)
    \<and> comments (m\<lparr>commentsView := False\<rparr>) = comments m
    \<and> \<not> commentsView (m\<lparr>commentsView := False\<rparr>)"
  using assms by (simp add: keyPress_def)

text \<open>Leaving the thread of \<open>storyA\<close>.\<close>

theorem leaving_keeps_comments_witness:
  "commentsView threadModel
   \<and> Update unitHeight (KeyMsg ''c'') (threadModel, 0)
       = Inr ((threadModel\<lparr>commentsView := False\<rparr>, 0), NoCmd, None)
   \<and> comments (threadModel\<lparr>commentsView := False\<rparr>) = comments threadModel"
proof -
  have h: "commentsView threadModel"
    by (simp add: threadModel_def)
  from h leaving_keeps_comments [OF h, of unitHeight 0] show ?thesis
    by blast
qed

text \<open>
  C8 as stated fails: after leaving the thread of \<open>storyA\<close> the comment list still holds
  its comment.
\<close>

theorem comments_not_cleared_counterexample:
  "Update unitHeight (KeyMsg ''c'') (threadModel, 0)
     = Inr ((threadModel\<lparr>commentsView := False\<rparr>, 0), NoCmd, None)
   \<and> comments (threadModel\<lparr>commentsView := False\<rparr>) \<noteq> []"
  by (simp add: keyPress_def threadModel_def)

subsection \<open>Refresh\<close>



section \<open>The story-page fetch\<close>

text \<open>
  Whenever the fetch delivers stories, it delivers exactly \<open>MAX\<close> slots: the slice never
  holds more than \<open>MAX\<close> ids, so the loop's \<open>stories[i] = s\<close> stays inside the array.
\<close>

lemma wf_model_initial: "wf_model initialModel"
  by (simp add: wf_model_def initialModel_def MAX'_def)

lemma length_fill: "length ids \<le> 20 \<Longrightarrow> length (fill item ids) = 20"
  by (simp add: fill_def MAX'_def)

lemma slice_short:
  assumes "- (2 ^ 63) \<le> s" "e = (if wrap64 (s + MAX') > n then n else wrap64 (s + MAX'))"
  shows "length (take (nat (e - s)) (drop (nat s) ids)) \<le> 20"
proof -
  have "wrap64 (s + MAX') \<le> s + 20"
    using assms(1) wrap64_le [of "s + MAX'"] by (simp add: MAX'_def)
  then have "e - s \<le> 20"
    using assms(2) by (simp split: if_splits)
  then show ?thesis by simp
qed

lemma fetch_fills_all_slots:
  assumes "fetchTopStories listing item page = Inr (LoadedStoriesMsg ss, page')"
  shows "wf_model (m\<lparr>stories := ss\<rparr>)"
proof (cases listing)
  case (Inl e)
  then show ?thesis
    using assms by (simp add: fetchTopStories_def)
next
  case (Inr ids)
  define n where "n = int (length ids)"
  define s0 where "s0 = max 0 (wrap64 (page * MAX'))"
  define s1 where "s1 = wrap64 ((go_div n MAX' - 1) * MAX')"
  define E where "E = (\<lambda>s. if wrap64 (s + MAX') > n then n else wrap64 (s + MAX'))"
  define R where "R = (\<lambda>s (q::int). if 0 \<le> s \<and> s \<le> E s
         then Inr (LoadedStoriesMsg (fill item (take (nat (E s - s)) (drop (nat s) ids))), q)
         else Inl SliceBoundsOutOfRange)"
  have a: "- (2 ^ 63) \<le> s0"
    by (simp add: s0_def)
  have b: "- (2 ^ 63) \<le> s1"
    using wrap64_range by (simp add: s1_def)
  have eq: "fetchTopStories listing item page
      = (if s0 \<ge> n then R s1 (go_div n MAX' - 1) else R s0 page)"
    unfolding fetchTopStories_def Inr R_def E_def s1_def s0_def n_def Let_def
    by simp
  have len: "length (take (nat (E s - s)) (drop (nat s) ids)) \<le> 20"
    if "- (2 ^ 63) \<le> s" for s
    using slice_short [OF that, of "E s" n ids] by (simp add: E_def)
  have R: "wf_model (m\<lparr>stories := ss\<rparr>)"
    if "R s q = Inr (LoadedStoriesMsg ss, page')" and "- (2 ^ 63) \<le> s" for s q
  proof -
    have "ss = fill item (take (nat (E s - s)) (drop (nat s) ids))"
      using that(1) unfolding R_def by (cases "0 \<le> s \<and> s \<le> E s") simp_all
    then show ?thesis
      using len [OF that(2)] by (simp add: wf_model_def length_fill MAX'_def)
  qed
  show ?thesis
  proof (cases "s0 \<ge> n")
    case True
    then show ?thesis
      using eq assms R [OF _ b] by simp
  next
    case False
    then show ?thesis
      using eq assms R [OF _ a] by simp
  qed
qed

text \<open>
  A page that starts inside the id list: no snap, the slice is the (up to) 20 ids from
  \<open>start\<close> on, and \<open>page\<close> is left alone.
\<close>

lemma fetch_no_snap:
  assumes "0 \<le> s" "s < int (length ids)" "s + 20 < 2 ^ 63"
    and "max 0 (wrap64 (page * MAX')) = s"
  shows "fetchTopStories (Inr ids) item page
    = Inr (LoadedStoriesMsg (fill item (take 20 (drop (nat s) ids))), page)"
proof -
  let ?n = "int (length ids)"
  have e: "wrap64 (s + MAX') = s + 20"
    using assms by (simp add: wrap64_id MAX'_def)
  have t: "take (nat (min (s + 20) ?n - s)) (drop (nat s) ids) = take 20 (drop (nat s) ids)"
    using assms by (cases "s + 20 \<le> ?n") (simp_all add: min_def)
  show ?thesis
    using assms e t unfolding fetchTopStories_def Let_def
    by (auto simp: min_def)
qed

text \<open>A page that starts at or past the end of a list of at least 20 ids: the snap.\<close>

lemma fetch_snap:
  assumes "20 \<le> length ids" "int (length ids) \<le> page * 20" "page * 20 < 2 ^ 63"
  shows "fetchTopStories (Inr ids) item page
    = Inr (LoadedStoriesMsg (fill item (take 20 (drop (20 * (length ids div 20 - 1)) ids))),
           int (length ids div 20) - 1)"
proof -
  let ?n = "int (length ids)"
  let ?k = "length ids div 20"
  define P where "P = int ?k - 1"
  have k: "1 \<le> ?k" "20 * ?k \<le> length ids"
    using assms by auto
  have s: "max 0 (wrap64 (page * MAX')) = page * 20"
    using assms by (simp add: wrap64_id MAX'_def)
  have g: "go_div ?n MAX' - 1 = P"
    by (simp add: P_def go_div_pos MAX'_def zdiv_int)
  have b: "P * 20 + 20 \<le> ?n" "0 \<le> P * 20"
    using k by (auto simp: P_def)
  have w1: "wrap64 (P * MAX') = P * 20"
    using b assms by (simp add: wrap64_id MAX'_def)
  have w2: "wrap64 (P * 20 + MAX') = P * 20 + 20"
    using b assms by (simp add: wrap64_id MAX'_def)
  have d: "nat (P * 20) = 20 * (?k - 1)"
    using k by (simp add: P_def nat_mult_distrib nat_diff_distrib')
  have "fetchTopStories (Inr ids) item page
    = Inr (LoadedStoriesMsg (fill item (take 20 (drop (nat (P * 20)) ids))), P)"
    using assms b by (simp add: fetchTopStories_def Let_def s g w1 w2)
  then show ?thesis
    unfolding d by (simp add: P_def)
qed

text \<open>
  With fewer than 20 ids the snap sets \<open>page\<close> to \<open>-1\<close> and \<open>start\<close> to \<open>-20\<close>, and the
  slice expression panics.
\<close>

lemma fetch_short_list_panics:
  "fetchTopStories (Inr [1, 2, 3, 4, 5]) sampleItem 1 = Inl SliceBoundsOutOfRange"
  by (simp add: fetchTopStories_def wrap64_def go_div_def MAX'_def Let_def)

text \<open>
  C4, as amended. When the id list holds at least 20 ids and \<open>start = page * 20\<close> is at
  or past its end, the fetch sets \<open>page\<close> to \<open>len / 20 - 1\<close> and delivers the 20 stories of
  that page, the last full one. When moreover the length is a multiple of 20, so that the
  last page is full, the key \<open>l\<close> on the last page makes the fetch deliver exactly what it
  delivers for the last page itself, and \<open>page\<close> is the last page again.
\<close>

theorem fetch_past_end_snaps:
  assumes "20 \<le> length ids" and "int (length ids) \<le> page * 20" and "page * 20 < 2 ^ 63"
  shows "fetchTopStories (Inr ids) item page
      = Inr (LoadedStoriesMsg (fill item (take 20 (drop (20 * (length ids div 20 - 1)) ids))),
             int (length ids div 20) - 1)
    \<and> (length ids mod 20 = 0 \<and> page = int (length ids div 20) \<longrightarrow>
         Update H (KeyMsg ''l'') (m, page - 1)
           = Inr ((m\<lparr>loading := True\<rparr>, page), FetchTopStoriesCmd, None)
         \<and> fetchTopStories (Inr ids) item page = fetchTopStories (Inr ids) item (page - 1))"
proof (intro conjI impI)
  show "fetchTopStories (Inr ids) item page
      = Inr (LoadedStoriesMsg (fill item (take 20 (drop (20 * (length ids div 20 - 1)) ids))),
             int (length ids div 20) - 1)"
    using assms by (rule fetch_snap)
next
  assume h: "length ids mod 20 = 0 \<and> page = int (length ids div 20)"
  have "1 \<le> page"
    using assms by auto
  then have "wrap64 (page - 1 + 1) = page"
    using assms by (simp add: wrap64_id)
  then show "Update H (KeyMsg ''l'') (m, page - 1)
           = Inr ((m\<lparr>loading := True\<rparr>, page), FetchTopStoriesCmd, None)"
    by (simp add: keyPress_def)
next
  assume h: "length ids mod 20 = 0 \<and> page = int (length ids div 20)"
  then obtain k where len: "length ids = 20 * k"
    by auto
  have dk: "length ids div 20 = k"
    using len by simp
  have k: "1 \<le> k"
    using assms len by auto
  have p: "page = int k"
    using h dk by simp
  have s: "max 0 (wrap64 ((page - 1) * MAX')) = (int k - 1) * 20"
    using assms k p by (simp add: wrap64_id MAX'_def)
  have d: "nat ((int k - 1) * 20) = 20 * (k - 1)"
    using k by (simp add: nat_mult_distrib nat_diff_distrib')
  have "fetchTopStories (Inr ids) item (page - 1)
    = Inr (LoadedStoriesMsg (fill item (take 20 (drop (nat ((int k - 1) * 20)) ids))), page - 1)"
  proof (rule fetch_no_snap [OF _ _ _ s])
    show "0 \<le> (int k - 1) * 20" using k by simp
    show "(int k - 1) * 20 < int (length ids)" using len by simp
    show "(int k - 1) * 20 + 20 < 2 ^ 63" using assms p by simp
  qed
  then show "fetchTopStories (Inr ids) item page = fetchTopStories (Inr ids) item (page - 1)"
    using fetch_snap [OF assms, of item] d p dk by simp
qed

text \<open>
  Forty ids, pages 0 and 1: the fetch for page 2 delivers the ids 21 to 40 and sets
  \<open>page\<close> to 1, as the fetch for page 1 does.
\<close>

theorem fetch_past_end_snaps_witness:
  "20 \<le> length (map int [1..<41]) \<and> int (length (map int [1..<41])) \<le> 2 * 20
   \<and> (2::int) * 20 < 2 ^ 63
   \<and> fetchTopStories (Inr (map int [1..<41])) sampleItem 2
      = Inr (LoadedStoriesMsg (fill sampleItem (map int [21..<41])), 1)
   \<and> fetchTopStories (Inr (map int [1..<41])) sampleItem 2
      = fetchTopStories (Inr (map int [1..<41])) sampleItem 1"
proof -
  have h1: "20 \<le> length (map int [1..<41])" by simp
  have h2: "int (length (map int [1..<41])) \<le> 2 * 20" by simp
  have h3: "(2::int) * 20 < 2 ^ 63" by simp
  have h4: "length (map int [1..<41]) mod 20 = 0
    \<and> (2::int) = int (length (map int [1..<41]) div 20)"
    by simp
  have t: "take 20 (drop (20 * (length (map int [1..<41]) div 20 - 1)) (map int [1..<41]))
    = map int [21..<41]"
    by (simp add: take_map drop_map)
  from fetch_past_end_snaps [OF h1 h2 h3, of sampleItem unitHeight initialModel] h4
  have "fetchTopStories (Inr (map int [1..<41])) sampleItem 2
      = Inr (LoadedStoriesMsg (fill sampleItem
          (take 20 (drop (20 * (length (map int [1..<41]) div 20 - 1)) (map int [1..<41])))),
          int (length (map int [1..<41]) div 20) - 1)"
    and "fetchTopStories (Inr (map int [1..<41])) sampleItem 2
      = fetchTopStories (Inr (map int [1..<41])) sampleItem (2 - 1)"
    by blast+
  then show ?thesis
    using h1 h2 h3 unfolding t by simp
qed

text \<open>
  C4 as stated fails. Thirty ids: page 1, the last page, holds the ids 21 to 30. The key
  \<open>l\<close> there sets \<open>page\<close> to 2, and the fetch then sets it to \<open>30 / 20 - 1 = 0\<close> and
  delivers the ids 1 to 20: the first page, not the last one again.
\<close>

theorem partial_last_page_counterexample:
  "fetchTopStories (Inr (map int [1..<31])) sampleItem 1
     = Inr (LoadedStoriesMsg (fill sampleItem (map int [21..<31])), 1)
   \<and> Update unitHeight (KeyMsg ''l'') (initialModel, 1)
     = Inr ((initialModel\<lparr>loading := True\<rparr>, 2), FetchTopStoriesCmd, None)
   \<and> fetchTopStories (Inr (map int [1..<31])) sampleItem 2
     = Inr (LoadedStoriesMsg (fill sampleItem (map int [1..<21])), 0)
   \<and> fetchTopStories (Inr (map int [1..<31])) sampleItem 2
     \<noteq> fetchTopStories (Inr (map int [1..<31])) sampleItem 1"
  by (simp add: fetchTopStories_def keyPress_def wrap64_def go_div_def MAX'_def Let_def
      take_map drop_map)




end
